theory Spec2Isabelle
  imports Complex_Main "HOL-Library.Log_Nat"
begin

section \<open>Data model\<close>

text \<open>
  The bidding engine of the auction platform lives in two files: the bid route
  (\<^verbatim>\<open>backend/routes/bids.js\<close>, handler \<^verbatim>\<open>router.post('/')\<close>) and the scheduler
  (\<^verbatim>\<open>backend/utils/scheduler.js\<close>, \<^verbatim>\<open>processEndingAuctions\<close> and \<^verbatim>\<open>endAuction\<close>).
  Both work on the tables \<^verbatim>\<open>auctions\<close> and \<^verbatim>\<open>bids\<close> declared in
  \<^verbatim>\<open>backend/config/database.js\<close>.

  Money columns are \<^verbatim>\<open>DECIMAL(10,2)\<close>: a stored amount is its exact number of cents (an
  \<open>int\<close>), so \<^verbatim>\<open>1.00\<close> is \<open>100\<close>. The amounts of a request are taken to be whole numbers
  of cents too. The database driver hands a \<^verbatim>\<open>DECIMAL\<close> column to the program as its
  decimal text, and the handler turns it into a number with \<^verbatim>\<open>parseFloat\<close>, a double.
  Timestamps are milliseconds (an \<open>int\<close>). A nullable column is an \<open>option\<close>.

  A table is the list of its rows in insertion order. The columns the two files never read
  or write (title, images, view counts, ...) are left out of the records.

  Two writers of these tables are not modelled: \<^verbatim>\<open>processProxyBids\<close> of the scheduler,
  which reads a table \<^verbatim>\<open>proxy_bids\<close> that the schema does not declare, and the
  administrative routes that end the auctions of a reported user.
\<close>

datatype auction_status = Draft | Active | Ended | Cancelled | Sold | Completed

record auction =
  a_id :: nat
  seller_id :: nat
  starting_price :: int
  current_price :: int
  reserve_price :: "int option"
  buy_now_price :: "int option"
  status :: auction_status
  end_time :: int
  bid_count :: int
  winner_id :: "nat option"

record bid =
  auction_id :: nat
  bidder_id :: nat
  amount :: int
  max_bid :: "int option"
  is_winning :: bool
  is_auto_bid :: bool
  created_at :: int

record db =
  auctions :: "auction list"
  bids :: "bid list"

text \<open>
  The schema of \<^verbatim>\<open>database.js\<close>: the tables it creates, the columns of \<^verbatim>\<open>auctions\<close> and
  of \<^verbatim>\<open>bids\<close>, and the values the \<^verbatim>\<open>CHECK\<close> constraint admits for the status of an
  auction (\<open>Completed\<close>, the scheduler's \<^verbatim>\<open>'completed'\<close>, is not among them). A statement
  that names another table or column, or writes another status, is refused by the
  database. The module \<^verbatim>\<open>config/redis.js\<close> exports the names listed last.
\<close>

definition declared_tables :: "string list" where
  "declared_tables =
     [''users'', ''categories'', ''auctions'', ''bids'', ''watchlist'', ''reports'',
      ''notifications'']"

definition auctions_columns :: "string list" where
  "auctions_columns =
     [''id'', ''seller_id'', ''category_id'', ''title'', ''description'', ''condition'',
      ''starting_price'', ''current_price'', ''reserve_price'', ''buy_now_price'',
      ''shipping_cost'', ''cod_locations'', ''images'', ''status'', ''start_time'',
      ''end_time'', ''bid_count'', ''view_count'', ''watch_count'', ''winner_id'',
      ''is_featured'', ''created_at'', ''updated_at'']"

definition bids_columns :: "string list" where
  "bids_columns =
     [''id'', ''auction_id'', ''bidder_id'', ''amount'', ''max_bid'', ''is_winning'',
      ''is_auto_bid'', ''created_at'']"

definition status_check :: "auction_status list" where
  "status_check = [Draft, Active, Ended, Cancelled, Sold]"

definition redis_exports :: "string list" where
  "redis_exports = [''connectRedis'', ''redisClient'', ''cache'', ''CACHE_KEYS'', ''CHANNELS'']"

text \<open>
  The request body of \<^verbatim>\<open>POST /bids\<close> with the authenticated user, and the clock readings
  of one run of the handler: \<^verbatim>\<open>NOW()\<close> of the transaction, \<^verbatim>\<open>new Date()\<close> of the
  anti-snipe test, \<^verbatim>\<open>Date.now()\<close> of the extension and \<^verbatim>\<open>new Date()\<close> of the emitted
  event.
\<close>

record bid_request =
  req_auctionId :: nat
  req_user :: nat
  req_amount :: int
  req_maxBid :: "int option"

record clock =
  sql_now :: int
  js_now_check :: int
  js_now_extend :: int
  js_now_emit :: int

text \<open>
  The answer to a placed bid and the \<^verbatim>\<open>bid_placed\<close> event, which carry the same
  values (the event is emitted when an \<^verbatim>\<open>io\<close> is registered on the application, and
  it alone carries the time remaining, kept here in milliseconds; the source divides it by
  1000; the price is given as the cent amount nearest to the number the answer carries).
  Then the errors of the handler: the answers 400 and 404 with their messages, the minimum
  that the answer to a bid below it carries (a double), and the answer 500 of the
  \<^verbatim>\<open>catch\<close> block. Last the three outcomes: a rejection, a buy-now purchase (with the
  winner and the final price of its answer) and a placed bid.
\<close>

record bid_placed =
  ev_bidder :: nat
  ev_amount :: int
  ev_currentPrice :: int
  ev_isWinning :: bool
  ev_bidCount :: int
  ev_timeRemaining :: int

datatype bid_error =
  ValidationFailed
  | AuctionNotFound
  | SelfBid
  | InvalidBidAmount rat
  | ServerError

datatype bid_result =
  Rejected bid_error
  | BoughtNow nat int
  | Placed bid_placed

section \<open>Numbers of the program\<close>

text \<open>
  A JavaScript number is a double. The doubles met here lie between 0.01 and \<open>10\<^sup>8\<close>,
  far inside the exponent range, so a double is modelled as the rational it denotes and
  the rounding of a result as the rounding to 53 significant bits, ties to even:
  \<open>ilog2 x\<close> is the exponent \<open>\<lfloor>log\<^sub>2 x\<rfloor>\<close> of a positive \<open>x\<close>, and \<open>dbl x\<close> the double
  nearest to \<open>x\<close>.
\<close>

definition round_even :: "rat \<Rightarrow> int" where
  "round_even y =
     (let f = \<lfloor>y\<rfloor>; r = y - of_int f
      in if r < 1 / 2 then f else if 1 / 2 < r then f + 1 else if even f then f else f + 1)"

definition ilog2 :: "rat \<Rightarrow> int" where
  "ilog2 x = (if 1 \<le> x then bitlen \<lfloor>x\<rfloor> - 1 else - bitlen (\<lceil>1 / x\<rceil> - 1))"

definition dbl :: "rat \<Rightarrow> rat" where
  "dbl x =
     (if x = 0 then 0
      else let u = 2 powi (ilog2 \<bar>x\<bar> - 52) in u * of_int (round_even (x / u)))"

text \<open>
  \<^verbatim>\<open>parseFloat\<close> of the decimal text of an amount of \<open>c\<close> cents (and the number that
  \<^verbatim>\<open>JSON.parse\<close> reads from such a text): the double nearest to \<open>c / 100\<close>.
\<close>

definition parseFloat :: "int \<Rightarrow> rat" where
  "parseFloat c = dbl (of_int c / 100)"

text \<open>
  A value fits \<^verbatim>\<open>DECIMAL(10,2)\<close> when it is below \<open>10\<^sup>8\<close> in absolute value; the
  database refuses a statement that writes another one (numeric field overflow).
\<close>

definition fits_decimal :: "int \<Rightarrow> bool" where
  "fits_decimal c = (\<bar>c\<bar> < 10 ^ 10)"

text \<open>
  JavaScript's \<^verbatim>\<open>x || d\<close> for a number of the request, which is false when it is absent
  or zero, and the truth value of a nullable integer column. A \<^verbatim>\<open>DECIMAL\<close> column reaches
  the program as a non-empty text, which is true whenever the column is not null.
\<close>

definition js_or :: "int option \<Rightarrow> int \<Rightarrow> int" where
  "js_or x d = (case x of None \<Rightarrow> d | Some v \<Rightarrow> if v = 0 then d else v)"

definition truthy :: "nat option \<Rightarrow> bool" where
  "truthy x = (case x of None \<Rightarrow> False | Some v \<Rightarrow> v \<noteq> 0)"

section \<open>Table operations\<close>

text \<open>\<^verbatim>\<open>UPDATE auctions SET ... WHERE id = $aid\<close>\<close>

definition update_auctions :: "nat \<Rightarrow> (auction \<Rightarrow> auction) \<Rightarrow> db \<Rightarrow> db" where
  "update_auctions aid f s =
     s\<lparr>auctions := map (\<lambda>a. if a_id a = aid then f a else a) (auctions s)\<rparr>"

text \<open>\<^verbatim>\<open>INSERT INTO bids ...\<close>\<close>

definition insert_bid :: "bid \<Rightarrow> db \<Rightarrow> db" where
  "insert_bid b s = s\<lparr>bids := bids s @ [b]\<rparr>"

text \<open>\<^verbatim>\<open>UPDATE bids SET is_winning = false WHERE auction_id = $aid AND is_winning = true\<close>\<close>

definition clear_winning :: "nat \<Rightarrow> db \<Rightarrow> db" where
  "clear_winning aid s =
     s\<lparr>bids := map (\<lambda>b. if auction_id b = aid \<and> is_winning b then b\<lparr>is_winning := False\<rparr> else b)
                  (bids s)\<rparr>"

text \<open>
  \<^verbatim>\<open>SELECT ... FROM auctions a WHERE a.id = $aid AND a.status = 'active' AND a.end_time > NOW()\<close>,
  first row. (The join with \<^verbatim>\<open>users\<close> adds the seller's name; the seller of an auction
  row exists, by the foreign key.)
\<close>

definition select_active :: "nat \<Rightarrow> int \<Rightarrow> db \<Rightarrow> auction option" where
  "select_active aid now s =
     find (\<lambda>a. a_id a = aid \<and> status a = Active \<and> now < end_time a) (auctions s)"

text \<open>\<^verbatim>\<open>SELECT * FROM auctions WHERE id = $aid\<close>: the row of an auction, as an observer reads it.\<close>

definition auction_row :: "db \<Rightarrow> nat \<Rightarrow> auction option" where
  "auction_row s aid = find (\<lambda>a. a_id a = aid) (auctions s)"

text \<open>The rows of \<^verbatim>\<open>bids\<close> of one auction, and those of them marked winning.\<close>

definition bids_of :: "db \<Rightarrow> nat \<Rightarrow> bid list" where
  "bids_of s aid = filter (\<lambda>b. auction_id b = aid) (bids s)"

definition winning_bids :: "db \<Rightarrow> nat \<Rightarrow> bid list" where
  "winning_bids s aid = filter (\<lambda>b. auction_id b = aid \<and> is_winning b) (bids s)"

text \<open>
  \<^verbatim>\<open>ORDER BY created_at DESC LIMIT 1\<close>: a row of greatest \<open>created_at\<close> (among equal
  timestamps, the one inserted last).
\<close>

fun latest :: "bid list \<Rightarrow> bid option" where
  "latest [] = None"
| "latest (b # bs) =
     (case latest bs of
        None \<Rightarrow> Some b
      | Some c \<Rightarrow> if created_at b \<le> created_at c then Some c else Some b)"

text \<open>
  \<^verbatim>\<open>ORDER BY amount DESC, created_at ASC LIMIT 1\<close>: a row of greatest amount, the earliest
  among those (among equal amounts and timestamps, the one inserted first).
\<close>

fun highest :: "bid list \<Rightarrow> bid option" where
  "highest [] = None"
| "highest (b # bs) =
     (case highest bs of
        None \<Rightarrow> Some b
      | Some c \<Rightarrow>
          if amount b < amount c \<or> (amount b = amount c \<and> created_at c < created_at b)
          then Some c else Some b)"

text \<open>
  \<^verbatim>\<open>SELECT * FROM bids WHERE auction_id = $aid AND is_winning = true
  ORDER BY created_at DESC LIMIT 1\<close>
\<close>

definition current_highest_bid :: "nat \<Rightarrow> db \<Rightarrow> bid option" where
  "current_highest_bid aid s = latest (winning_bids s aid)"

section \<open>Placing a bid\<close>

text \<open>
  The increment is the number \<^verbatim>\<open>1.00\<close>: 100 cents where it is added to an amount that is
  written to a column, and the double 1 where the handler adds it to a double.
\<close>

definition minBidIncrement :: int where
  "minBidIncrement = 100"

definition fiveMinutes :: int where
  "fiveMinutes = 5 * 60 * 1000"

text \<open>
  The validators of the route: \<^verbatim>\<open>amount\<close> is a float of at least 0.01, and so is
  \<^verbatim>\<open>maxBid\<close> when it is given.
\<close>

definition valid_request :: "bid_request \<Rightarrow> bool" where
  "valid_request req =
     (1 \<le> req_amount req \<and> (case req_maxBid req of None \<Rightarrow> True | Some m \<Rightarrow> 1 \<le> m))"

text \<open>
  \<^verbatim>\<open>requiredMinBid = parseFloat(auction.current_price) + minBidIncrement\<close>: a sum of two
  doubles, rounded to a double. The handler compares \<^verbatim>\<open>parseFloat(amount)\<close> with it.
\<close>

definition requiredMinBid :: "auction \<Rightarrow> rat" where
  "requiredMinBid auction = dbl (parseFloat (current_price auction) + parseFloat minBidIncrement)"

text \<open>
  \<^verbatim>\<open>parseFloat(currentHighestBid.max_bid || currentHighestBid.amount)\<close>: the ceiling of a
  stored bid, its \<^verbatim>\<open>max_bid\<close> unless that is null.
\<close>

definition stored_ceiling :: "bid \<Rightarrow> int" where
  "stored_ceiling b = (case max_bid b of None \<Rightarrow> amount b | Some m \<Rightarrow> m)"

text \<open>
  The buy-now branch: the auction is updated to \<^verbatim>\<open>sold\<close> at the buy-now price and a
  winning bid is inserted at that price (with no \<^verbatim>\<open>max_bid\<close>). The bids already there are
  not touched and \<^verbatim>\<open>bid_count\<close> is not changed.
\<close>

definition buy_now :: "clock \<Rightarrow> bid_request \<Rightarrow> int \<Rightarrow> db \<Rightarrow> bid_result \<times> db" where
  "buy_now clk req price s =
     (let auctionId = req_auctionId req;
          bidderId = req_user req;
          s1 = update_auctions auctionId
                 (\<lambda>a. a\<lparr>current_price := price, status := Sold,
                        winner_id := Some bidderId, end_time := sql_now clk\<rparr>) s;
          s2 = insert_bid \<lparr>auction_id = auctionId, bidder_id = bidderId, amount = price,
                          max_bid = None, is_winning = True, is_auto_bid = False,
                          created_at = sql_now clk\<rparr> s1
      in (BoughtNow bidderId price, s2))"

text \<open>
  The proxy bidding logic: the new displayed price, whether the new bid is winning, and the
  tables after the updates of the branch taken. The numbers compared and added are the
  doubles of cent amounts; two such doubles compare as the amounts do, and a sum is
  written to a \<^verbatim>\<open>DECIMAL(10,2)\<close> column, which rounds it to the cent, so the computation is
  given in cents (\<open>parseFloat_less_iff\<close> and \<open>sum_rounds_to_cent\<close> below are the two
  facts, for amounts that fit the columns).
\<close>

definition proxy_bidding :: "bid_request \<Rightarrow> db \<Rightarrow> int \<times> bool \<times> db" where
  "proxy_bidding req s =
     (let auctionId = req_auctionId req in
      case current_highest_bid auctionId s of
        Some currentHighestBid \<Rightarrow>
          (let currentMaxBid = stored_ceiling currentHighestBid;
               newMaxBid = js_or (req_maxBid req) (req_amount req)
           in if newMaxBid \<le> currentMaxBid
              then (let newCurrentPrice = min (newMaxBid + minBidIncrement) currentMaxBid
                    in (newCurrentPrice, False,
                        update_auctions auctionId
                          (\<lambda>a. a\<lparr>current_price := newCurrentPrice\<rparr>) s))
              else (let newCurrentPrice = min (currentMaxBid + minBidIncrement) newMaxBid
                    in (newCurrentPrice, True,
                        update_auctions auctionId
                          (\<lambda>a. a\<lparr>current_price := newCurrentPrice,
                                 bid_count := bid_count a + 1\<rparr>)
                          (clear_winning auctionId s))))
      | None \<Rightarrow>
          (req_amount req, True,
           update_auctions auctionId
             (\<lambda>a. a\<lparr>current_price := req_amount req, bid_count := bid_count a + 1\<rparr>) s))"

text \<open>
  Anti-snipe protection: the time remaining is measured on the end time read at the start
  of the handler.
\<close>

definition anti_snipe :: "clock \<Rightarrow> nat \<Rightarrow> auction \<Rightarrow> db \<Rightarrow> db" where
  "anti_snipe clk auctionId auction s =
     (let timeRemaining = end_time auction - js_now_check clk
      in if timeRemaining < fiveMinutes
         then update_auctions auctionId
                (\<lambda>a. a\<lparr>end_time := js_now_extend clk + fiveMinutes\<rparr>) s
         else s)"

text \<open>
  The ordinary path after the validation: proxy logic, anti-snipe, the insert of the new
  bid with the submitted amount, and the answer, whose bid count and time remaining are
  computed from the auction row read at the start of the handler. When the new price, the
  amount or the maximum does not fit \<^verbatim>\<open>DECIMAL(10,2)\<close>, the statement that writes it fails:
  the \<^verbatim>\<open>catch\<close> block rolls the transaction back and answers 500.
\<close>

definition normal_bid :: "clock \<Rightarrow> bid_request \<Rightarrow> auction \<Rightarrow> db \<Rightarrow> bid_result \<times> db" where
  "normal_bid clk req auction s =
     (case proxy_bidding req s of
        (newCurrentPrice, isWinning, s1) \<Rightarrow>
          (let s2 = anti_snipe clk (req_auctionId req) auction s1;
               s3 = insert_bid \<lparr>auction_id = req_auctionId req, bidder_id = req_user req,
                               amount = req_amount req,
                               max_bid = Some (js_or (req_maxBid req) (req_amount req)),
                               is_winning = isWinning, is_auto_bid = False,
                               created_at = sql_now clk\<rparr> s2
           in if fits_decimal newCurrentPrice \<and> fits_decimal (req_amount req)
                 \<and> fits_decimal (js_or (req_maxBid req) (req_amount req))
              then (Placed \<lparr>ev_bidder = req_user req, ev_amount = req_amount req,
                            ev_currentPrice = newCurrentPrice, ev_isWinning = isWinning,
                            ev_bidCount = bid_count auction + 1,
                            ev_timeRemaining = max 0 (end_time auction - js_now_emit clk)\<rparr>,
                    s3)
              else (Rejected ServerError, s)))"

text \<open>
  \<^verbatim>\<open>auction.buy_now_price && parseFloat(amount) >= parseFloat(auction.buy_now_price)\<close>:
  the column is not null, and the two doubles are compared, which compare as the cent
  amounts do.
\<close>

definition meets_buy_now :: "auction \<Rightarrow> int \<Rightarrow> bool" where
  "meets_buy_now auction amount' =
     (case buy_now_price auction of None \<Rightarrow> False | Some price \<Rightarrow> price \<le> amount')"

text \<open>
  The handler. Every rejection rolls the transaction back, and no rejection before the
  ordinary path has written anything: the tables are returned as they were. (The cache
  invalidation and the notification of the seller are not modelled.)
\<close>

definition place_bid :: "clock \<Rightarrow> bid_request \<Rightarrow> db \<Rightarrow> bid_result \<times> db" where
  "place_bid clk req s =
     (if \<not> valid_request req then (Rejected ValidationFailed, s)
      else case select_active (req_auctionId req) (sql_now clk) s of
        None \<Rightarrow> (Rejected AuctionNotFound, s)
      | Some auction \<Rightarrow>
          if seller_id auction = req_user req then (Rejected SelfBid, s)
          else if parseFloat (req_amount req) < requiredMinBid auction
               then (Rejected (InvalidBidAmount (requiredMinBid auction)), s)
               else if meets_buy_now auction (req_amount req)
               then buy_now clk req (the (buy_now_price auction)) s
               else normal_bid clk req auction s)"

section \<open>Closing auctions\<close>

text \<open>
  A row of the scheduler's query: the auction columns it selects, with the bidder and the
  amount of the highest bid of the auction (both null when it has no bid).
\<close>

record ending_auction =
  e_id :: nat
  e_seller_id :: nat
  e_current_price :: int
  e_reserve_price :: "int option"
  e_starting_price :: int
  e_end_time :: int
  e_winner_id :: "nat option"
  e_winning_bid :: "int option"

text \<open>
  The subquery \<^verbatim>\<open>... FROM bids WHERE auction_id = a.id ORDER BY amount DESC, created_at ASC
  LIMIT 1\<close> orders the bids of the auction by their amount.
\<close>

definition highest_bid :: "nat \<Rightarrow> db \<Rightarrow> bid option" where
  "highest_bid aid s = highest (bids_of s aid)"

text \<open>
  The query of the sweep. Its first subquery selects \<^verbatim>\<open>user_id\<close> from \<^verbatim>\<open>bids\<close>. The
  table declares no such column, so the database answers the query with an error
  (\<open>None\<close>). Were the column declared, the rows would be the active auctions past their end
  time, each with the first bid of the ordering above (\<open>ending_row\<close>, where the bidder is
  read from the one user column the table has).
\<close>

definition ending_row :: "db \<Rightarrow> auction \<Rightarrow> ending_auction" where
  "ending_row s a =
     \<lparr>e_id = a_id a, e_seller_id = seller_id a, e_current_price = current_price a,
      e_reserve_price = reserve_price a, e_starting_price = starting_price a,
      e_end_time = end_time a,
      e_winner_id = map_option bidder_id (highest_bid (a_id a) s),
      e_winning_bid = map_option amount (highest_bid (a_id a) s)\<rparr>"

definition sweep_query :: "int \<Rightarrow> db \<Rightarrow> ending_auction list option" where
  "sweep_query now s =
     (if ''user_id'' \<in> set bids_columns
      then Some (map (ending_row s)
                   (filter (\<lambda>a. status a = Active \<and> end_time a \<le> now) (auctions s)))
      else None)"

text \<open>
  The decimal text of a \<^verbatim>\<open>DECIMAL(10,2)\<close> value, as the program receives it, and
  JavaScript's \<^verbatim>\<open><\<close> on two texts: the order of the dictionary on their characters.
\<close>

definition digit :: "nat \<Rightarrow> char" where
  "digit n = ''0123456789'' ! n"

function digits :: "nat \<Rightarrow> string" where
  "digits n = (if n < 10 then [digit n] else digits (n div 10) @ [digit (n mod 10)])"
  by pat_completeness auto
termination
  by (relation "measure id") auto

definition decimal_text :: "int \<Rightarrow> string" where
  "decimal_text c =
     (if c < 0 then ''-'' else []) @ digits (nat \<bar>c\<bar> div 100) @ ''.''
       @ [digit (nat \<bar>c\<bar> mod 100 div 10), digit (nat \<bar>c\<bar> mod 10)]"

fun text_less :: "string \<Rightarrow> string \<Rightarrow> bool" where
  "text_less [] [] = False"
| "text_less [] (y # ys) = True"
| "text_less (x # xs) [] = False"
| "text_less (x # xs) (y # ys) =
     ((of_char x :: nat) < of_char y \<or> (x = y \<and> text_less xs ys))"

text \<open>
  \<^verbatim>\<open>!auction.reserve_price || auction.winning_bid >= auction.reserve_price\<close>, on the
  texts of the two columns.
\<close>

definition reserve_met :: "ending_auction \<Rightarrow> bool" where
  "reserve_met auction =
     (case e_reserve_price auction of
        None \<Rightarrow> True
      | Some reserve \<Rightarrow>
          (case e_winning_bid auction of
             None \<Rightarrow> False
           | Some winning \<Rightarrow> \<not> text_less (decimal_text winning) (decimal_text reserve)))"

text \<open>
  The two nested tests of \<^verbatim>\<open>endAuction\<close>:
  \<^verbatim>\<open>auction.winner_id && auction.winning_bid\<close>, then the reserve, and what they decide:
  the status, the winner and the final price.
\<close>

definition completes :: "ending_auction \<Rightarrow> bool" where
  "completes auction =
     (truthy (e_winner_id auction) \<and> e_winning_bid auction \<noteq> None \<and> reserve_met auction)"

definition end_decision :: "ending_auction \<Rightarrow> auction_status \<times> nat option \<times> int" where
  "end_decision auction =
     (if completes auction
      then (Completed, e_winner_id auction, the (e_winning_bid auction))
      else (Ended, None, e_starting_price auction))"

text \<open>
  The statements of \<^verbatim>\<open>endAuction\<close>, each with the reason for which the database or the
  program refuses it (\<open>None\<close>):
  \<^verbatim>\<open>UPDATE auctions SET status = $1, winner_id = $2, final_price = $3 WHERE id = $4\<close> names
  the column \<^verbatim>\<open>final_price\<close>, which the table does not declare, and its status must pass
  the \<^verbatim>\<open>CHECK\<close> constraint; \<^verbatim>\<open>INSERT INTO orders ...\<close> names a table that the schema does
  not declare; \<^verbatim>\<open>sendNotification\<close> and the event are published through \<^verbatim>\<open>realtime\<close>,
  imported from \<^verbatim>\<open>config/redis.js\<close>, which exports no such name. The last two write
  to neither of the two tables kept here.
\<close>

definition update_closed :: "auction_status \<Rightarrow> nat option \<Rightarrow> nat \<Rightarrow> db \<Rightarrow> db option" where
  "update_closed status' winnerId aid s =
     (if ''final_price'' \<in> set auctions_columns \<and> status' \<in> set status_check
      then Some (update_auctions aid (\<lambda>a. a\<lparr>status := status', winner_id := winnerId\<rparr>) s)
      else None)"

definition insert_order :: "db \<Rightarrow> db option" where
  "insert_order s = (if ''orders'' \<in> set declared_tables then Some s else None)"

definition publish :: "db \<Rightarrow> db option" where
  "publish s = (if ''realtime'' \<in> set redis_exports then Some s else None)"

text \<open>
  \<^verbatim>\<open>endAuction\<close>: the decision, the update, the order of a completed auction, the
  notifications and the event. The first statement that is refused throws; the \<^verbatim>\<open>catch\<close>
  block rolls back, and the tables are as they were (the \<^verbatim>\<open>UPDATE\<close>, the first
  statement that writes, is also the first to be refused).
\<close>

definition endAuction :: "ending_auction \<Rightarrow> db \<Rightarrow> db" where
  "endAuction auction s =
     (case end_decision auction of
        (status', winnerId, finalPrice) \<Rightarrow>
          (case update_closed status' winnerId (e_id auction) s of
             None \<Rightarrow> s
           | Some s1 \<Rightarrow>
               (case (if status' = Completed then insert_order s1 else Some s1) of
                  None \<Rightarrow> s
                | Some s2 \<Rightarrow> (case publish s2 of None \<Rightarrow> s | Some s3 \<Rightarrow> s3))))"

text \<open>
  \<^verbatim>\<open>processEndingAuctions\<close>: the query is run once, then every row of its result is
  ended in turn. An error of the query is caught and logged, and nothing is ended.
\<close>

definition processEndingAuctions :: "int \<Rightarrow> db \<Rightarrow> db" where
  "processEndingAuctions now s =
     (case sweep_query now s of None \<Rightarrow> s | Some rows \<Rightarrow> fold endAuction rows s)"

section \<open>Sequences of requests and observations\<close>

text \<open>
  The handler locks the auction row (\<^verbatim>\<open>FOR UPDATE\<close>), so the requests on one auction run
  one after the other: a stream of requests is a list, each with the clock readings of its
  run.
\<close>

fun place_bids :: "(clock \<times> bid_request) list \<Rightarrow> db \<Rightarrow> bid_result list \<times> db" where
  "place_bids [] s = ([], s)"
| "place_bids ((clk, req) # calls) s =
     (case place_bid clk req s of
        (r, s1) \<Rightarrow> (case place_bids calls s1 of (rs, s2) \<Rightarrow> (r # rs, s2)))"

fun is_rejected :: "bid_result \<Rightarrow> bool" where
  "is_rejected (Rejected e) = True"
| "is_rejected (BoughtNow w p) = False"
| "is_rejected (Placed ev) = False"

text \<open>A call and its result: the call is on another auction, or it was rejected.\<close>

definition rejects_on :: "nat \<Rightarrow> (clock \<times> bid_request) \<times> bid_result \<Rightarrow> bool" where
  "rejects_on aid x = (req_auctionId (snd (fst x)) \<noteq> aid \<or> is_rejected (snd x))"

text \<open>
  The displayed price of an auction is covered when the bid the handler would read as the
  current highest one has a ceiling (\<^verbatim>\<open>max_bid || amount\<close>) of at least that price. A
  request has a covering ceiling when its \<^verbatim>\<open>maxBid\<close> is absent or at least its amount
  (the route does not check this).
\<close>

definition price_covered :: "db \<Rightarrow> nat \<Rightarrow> bool" where
  "price_covered s aid =
     (case auction_row s aid of
        None \<Rightarrow> True
      | Some a \<Rightarrow>
          (case current_highest_bid aid s of
             None \<Rightarrow> True
           | Some w \<Rightarrow> current_price a \<le> stored_ceiling w))"

definition ceiling_ok :: "bid_request \<Rightarrow> bool" where
  "ceiling_ok req = (case req_maxBid req of None \<Rightarrow> True | Some m \<Rightarrow> req_amount req \<le> m)"

section \<open>Example data\<close>

text \<open>
  A listing as the creation route inserts it: active, no bid, the current price equal to
  the starting price of 10.00. It ends at \<open>10000000\<close>. Variants carry a buy-now price of
  50.00 (with starting prices of 10.00 and of 49.50), a starting price of 1.03 with a
  buy-now price of 2.03, and a reserve of 200.00.
\<close>

definition listing :: auction where
  "listing = \<lparr>a_id = 1, seller_id = 9, starting_price = 1000, current_price = 1000,
              reserve_price = None, buy_now_price = None, status = Active,
              end_time = 10000000, bid_count = 0, winner_id = None\<rparr>"

definition listing_buy_now :: auction where
  "listing_buy_now = listing\<lparr>buy_now_price := Some 5000\<rparr>"

definition listing_buy_now_close :: auction where
  "listing_buy_now_close =
     listing\<lparr>starting_price := 4950, current_price := 4950, buy_now_price := Some 5000\<rparr>"

definition listing_103 :: auction where
  "listing_103 =
     listing\<lparr>starting_price := 103, current_price := 103, buy_now_price := Some 203\<rparr>"

definition listing_reserve :: auction where
  "listing_reserve = listing\<lparr>reserve_price := Some 20000\<rparr>"

definition db_of :: "auction \<Rightarrow> db" where
  "db_of a = \<lparr>auctions = [a], bids = []\<rparr>"

text \<open>Clock readings of one run that starts at \<open>t\<close>, and a request on auction 1.\<close>

definition clock_at :: "int \<Rightarrow> clock" where
  "clock_at t = \<lparr>sql_now = t, js_now_check = t + 1, js_now_extend = t + 2, js_now_emit = t + 3\<rparr>"

definition bid_req :: "nat \<Rightarrow> int \<Rightarrow> int option \<Rightarrow> bid_request" where
  "bid_req u amt mx = \<lparr>req_auctionId = 1, req_user = u, req_amount = amt, req_maxBid = mx\<rparr>"



text \<open>
  Bidder 2 opens with 11.00, bidder 3 bids 50.00, then bidder 4 bids 13.00 with a maximum
  of 200.00 (no other maximum is given).
\<close>

definition after_low :: db where
  "after_low = snd (place_bid (clock_at 1000) (bid_req 2 1100 None) (db_of listing))"

definition after_high :: db where
  "after_high = snd (place_bid (clock_at 2000) (bid_req 3 5000 None) after_low)"

definition after_proxy :: db where
  "after_proxy = snd (place_bid (clock_at 3000) (bid_req 4 1300 (Some 20000)) after_high)"

text \<open>
  Bidder 2 opens with 11.00 and a maximum of 100.00; then bidder 3 bids 50.00, two minutes
  before the end, and the standing maximum absorbs the bid.
\<close>

definition after_standing :: db where
  "after_standing = snd (place_bid (clock_at 1000) (bid_req 2 1100 (Some 10000)) (db_of listing))"

definition after_absorbed :: db where
  "after_absorbed = snd (place_bid (clock_at 9880000) (bid_req 3 5000 None) after_standing)"

text \<open>
  Bidder 2 opens with 100.00; then bidder 3 bids 150.00 with a maximum of 50.00, below the
  amount of the bid.
\<close>

definition after_hundred :: db where
  "after_hundred = snd (place_bid (clock_at 1000) (bid_req 2 10000 None) (db_of listing))"

definition after_low_ceiling :: db where
  "after_low_ceiling = snd (place_bid (clock_at 2000) (bid_req 3 15000 (Some 5000)) after_hundred)"

text \<open>On the buy-now listing, bidder 2 opens with 11.00; then bidder 3 bids 50.00.\<close>

definition buy_now_opened :: db where
  "buy_now_opened = snd (place_bid (clock_at 1000) (bid_req 2 1100 None) (db_of listing_buy_now))"

definition buy_now_bought :: db where
  "buy_now_bought = snd (place_bid (clock_at 2000) (bid_req 3 5000 None) buy_now_opened)"

text \<open>
  On the listing with a reserve of 200.00, one bid of 250.00, or one of 150.00, or one of
  1000.00.
\<close>

definition reserve_met_db :: db where
  "reserve_met_db = snd (place_bid (clock_at 1000) (bid_req 2 25000 None) (db_of listing_reserve))"

definition reserve_missed_db :: db where
  "reserve_missed_db = snd (place_bid (clock_at 1000) (bid_req 2 15000 None) (db_of listing_reserve))"

definition reserve_high_db :: db where
  "reserve_high_db = snd (place_bid (clock_at 1000) (bid_req 2 100000 None) (db_of listing_reserve))"

lemmas example_defs =
  listing_def listing_buy_now_def listing_buy_now_close_def listing_103_def
  listing_reserve_def db_of_def
  clock_at_def bid_req_def

lemmas handler_defs =
  place_bid_def valid_request_def select_active_def meets_buy_now_def js_or_def
  stored_ceiling_def fits_decimal_def
  buy_now_def normal_bid_def proxy_bidding_def anti_snipe_def current_highest_bid_def
  winning_bids_def update_auctions_def insert_bid_def clear_winning_def
  minBidIncrement_def fiveMinutes_def Let_def

section \<open>Facts about the numbers\<close>

text \<open>
  \<open>ilog2 x\<close> is the exponent of a positive \<open>x\<close>: \<open>2 powi (ilog2 x) \<le> x < 2 powi (ilog2 x + 1)\<close>.
  The rounding to a double moves a number by at most the \<open>2\<^sup>5\<^sup>3\<close>-th part of its size
  (half a unit in the last of 53 bits).
\<close>

lemma round_even_error: "\<bar>of_int (round_even y) - y\<bar> \<le> 1 / 2"
proof -
  have "of_int \<lfloor>y\<rfloor> \<le> y" "y < of_int \<lfloor>y\<rfloor> + 1" by linarith+
  then show ?thesis
    by (auto simp: round_even_def Let_def abs_le_iff)
qed

lemma ilog2_lower:
  assumes "0 < x"
  shows "2 powi (ilog2 x) \<le> x"
proof (cases "1 \<le> x")
  case True
  then have pos: "0 < \<lfloor>x\<rfloor>" by linarith
  have "(2::int) ^ nat (bitlen \<lfloor>x\<rfloor> - 1) \<le> \<lfloor>x\<rfloor>"
    using bitlen_bounds [OF pos] by simp
  then have "(of_int ((2::int) ^ nat (bitlen \<lfloor>x\<rfloor> - 1)) :: rat) \<le> of_int \<lfloor>x\<rfloor>"
    by (simp only: of_int_le_iff)
  also have "\<dots> \<le> x" by linarith
  finally have "(2::rat) ^ nat (bitlen \<lfloor>x\<rfloor> - 1) \<le> x" by simp
  moreover have "0 \<le> bitlen \<lfloor>x\<rfloor> - 1"
    using pos bitlen_bounds [OF pos] by (smt (verit) bitlen_nonneg bitlen_eq_zero_iff)
  ultimately show ?thesis
    using True by (simp add: ilog2_def power_int_def)
next
  case False
  with assms have inv: "1 < 1 / x" by simp
  let ?n = "\<lceil>1 / x\<rceil> - 1"
  have pos: "0 < ?n" using inv by linarith
  have "?n < 2 ^ nat (bitlen ?n)"
    using bitlen_bounds [OF pos] by simp
  then have "\<lceil>1 / x\<rceil> \<le> 2 ^ nat (bitlen ?n)" by linarith
  then have "(of_int \<lceil>1 / x\<rceil> :: rat) \<le> of_int (2 ^ nat (bitlen ?n))"
    by (simp only: of_int_le_iff)
  then have "(of_int \<lceil>1 / x\<rceil> :: rat) \<le> 2 ^ nat (bitlen ?n)"
    by simp
  moreover have "1 / x \<le> of_int \<lceil>1 / x\<rceil>" by linarith
  ultimately have "1 / x \<le> 2 ^ nat (bitlen ?n)" by (rule order_trans [rotated])
  then have "1 \<le> 2 ^ nat (bitlen ?n) * x"
    using assms by (simp add: field_simps)
  then have "1 / 2 ^ nat (bitlen ?n) \<le> x"
    by (simp add: field_simps)
  moreover have "(2::rat) powi (- bitlen ?n) = 1 / 2 ^ nat (bitlen ?n)"
    using bitlen_nonneg [of ?n] by (simp add: power_int_minus power_int_def field_simps)
  ultimately show ?thesis
    using False by (simp add: ilog2_def)
qed

lemma ilog2_upper:
  assumes "0 < x"
  shows "x < 2 powi (ilog2 x + 1)"
proof (cases "1 \<le> x")
  case True
  then have pos: "0 < \<lfloor>x\<rfloor>" by linarith
  have "\<lfloor>x\<rfloor> < 2 ^ nat (bitlen \<lfloor>x\<rfloor>)"
    using bitlen_bounds [OF pos] by simp
  then have "\<lfloor>x\<rfloor> + 1 \<le> 2 ^ nat (bitlen \<lfloor>x\<rfloor>)" by linarith
  then have "(of_int (\<lfloor>x\<rfloor> + 1) :: rat) \<le> of_int (2 ^ nat (bitlen \<lfloor>x\<rfloor>))"
    by (simp only: of_int_le_iff)
  then have "(of_int \<lfloor>x\<rfloor> + 1 :: rat) \<le> 2 ^ nat (bitlen \<lfloor>x\<rfloor>)"
    by simp
  moreover have "x < of_int \<lfloor>x\<rfloor> + 1" by linarith
  ultimately have "x < 2 ^ nat (bitlen \<lfloor>x\<rfloor>)" by linarith
  then show ?thesis
    using True bitlen_nonneg [of "\<lfloor>x\<rfloor>"] by (simp add: ilog2_def power_int_def)
next
  case False
  with assms have inv: "1 < 1 / x" by simp
  let ?n = "\<lceil>1 / x\<rceil> - 1"
  have pos: "0 < ?n" using inv by linarith
  have b1: "1 \<le> bitlen ?n"
    using pos by (smt (verit) bitlen_nonneg bitlen_eq_zero_iff)
  have "(2::int) ^ nat (bitlen ?n - 1) \<le> ?n"
    using bitlen_bounds [OF pos] by simp
  then have "(of_int ((2::int) ^ nat (bitlen ?n - 1)) :: rat) \<le> of_int ?n"
    by (simp only: of_int_le_iff)
  then have "(2::rat) ^ nat (bitlen ?n - 1) \<le> of_int \<lceil>1 / x\<rceil> - 1"
    by simp
  moreover have "of_int \<lceil>1 / x\<rceil> - 1 < 1 / x" by linarith
  ultimately have "(2::rat) ^ nat (bitlen ?n - 1) < 1 / x" by linarith
  then have "2 ^ nat (bitlen ?n - 1) * x < 1"
    using assms by (simp add: field_simps)
  then have "x < 1 / 2 ^ nat (bitlen ?n - 1)"
    by (simp add: field_simps)
  moreover have "(2::rat) powi (- bitlen ?n + 1) = 1 / 2 ^ nat (bitlen ?n - 1)"
  proof -
    have "- bitlen ?n + 1 = - (bitlen ?n - 1)" by simp
    then have "(2::rat) powi (- bitlen ?n + 1) = 2 powi (- (bitlen ?n - 1))" by simp
    also have "\<dots> = 1 / 2 ^ nat (bitlen ?n - 1)"
      using b1 by (simp only: power_int_minus) (simp add: power_int_def field_simps)
    finally show ?thesis .
  qed
  ultimately show ?thesis
    using False by (simp add: ilog2_def)
qed

lemma dbl_error: "\<bar>dbl x - x\<bar> \<le> \<bar>x\<bar> / 2 ^ 53"
proof (cases "x = 0")
  case True
  then show ?thesis by (simp add: dbl_def)
next
  case False
  define e where "e = ilog2 \<bar>x\<bar>"
  define u :: rat where "u = 2 powi (e - 52)"
  have upos: "0 < u" by (simp add: u_def)
  have low: "2 powi e \<le> \<bar>x\<bar>"
    unfolding e_def using False by (intro ilog2_lower) simp
  have d: "dbl x = u * of_int (round_even (x / u))"
    using False by (simp add: dbl_def Let_def u_def e_def)
  have "dbl x - x = u * (of_int (round_even (x / u)) - x / u)"
    using upos by (simp add: d right_diff_distrib)
  then have "\<bar>dbl x - x\<bar> = u * \<bar>of_int (round_even (x / u)) - x / u\<bar>"
    using upos by (simp add: abs_mult)
  also have "\<dots> \<le> u * (1 / 2)"
    using upos round_even_error [of "x / u"] by (intro mult_left_mono) simp_all
  also have "u * (1 / 2) = 2 powi e / 2 ^ 53"
    by (simp add: u_def power_int_diff)
  also have "\<dots> \<le> \<bar>x\<bar> / 2 ^ 53"
    using low by (simp add: divide_right_mono)
  finally show ?thesis .
qed

lemma dbl_bounds:
  assumes "\<bar>x\<bar> \<le> b"
  shows "x - b / 2 ^ 53 \<le> dbl x" "dbl x \<le> x + b / 2 ^ 53"
proof -
  have "\<bar>dbl x - x\<bar> \<le> b / 2 ^ 53"
    using dbl_error [of x] assms by (simp add: field_simps)
  then have "- (b / 2 ^ 53) \<le> dbl x - x" "dbl x - x \<le> b / 2 ^ 53"
    by (simp_all only: abs_le_iff) linarith+
  then show "x - b / 2 ^ 53 \<le> dbl x" "dbl x \<le> x + b / 2 ^ 53"
    by linarith+
qed

lemma dbl_bounds_nonneg:
  assumes "0 \<le> x"
  shows "x - x / 2 ^ 53 \<le> dbl x" "dbl x \<le> x + x / 2 ^ 53"
  using dbl_bounds [of x x] assms by simp_all

text \<open>The increment \<^verbatim>\<open>1.00\<close> is the double 1.\<close>

lemma parseFloat_increment: "parseFloat minBidIncrement = 1"
  unfolding minBidIncrement_def by code_simp

text \<open>
  The minimum-bid test on cent amounts: a bid of at most 99 cents over the current price is
  below the required minimum, a bid of at least 101 cents over it is not. At exactly 100
  cents over it the rounding of the sum decides.
\<close>

lemma threshold_low:
  assumes a: "0 \<le> a" "a < 10 ^ 12" and p: "0 \<le> p" and low: "a \<le> p + 99"
  shows "parseFloat a < dbl (parseFloat p + 1)"
proof -
  define A :: rat where "A = of_int a / 100"
  define P :: rat where "P = of_int p / 100"
  define S :: rat where "S = dbl P + 1"
  have A0: "0 \<le> A" and A1: "A < 10 ^ 10" and P0: "0 \<le> P"
    using a p by (simp_all add: A_def P_def)
  have "(of_int a :: rat) \<le> of_int p + 99"
    using low by (metis of_int_le_iff of_int_add of_int_numeral)
  then have AP: "A \<le> P + 99 / 100"
    by (simp add: A_def P_def field_simps)
  have dA: "dbl A \<le> A + A / 2 ^ 53" using dbl_bounds_nonneg [OF A0] by simp
  have dP: "P - P / 2 ^ 53 \<le> dbl P" using dbl_bounds_nonneg [OF P0] by simp
  have S0: "0 \<le> S" using dP P0 by (simp add: S_def)
  have dS: "S - S / 2 ^ 53 \<le> dbl S" using dbl_bounds_nonneg [OF S0] by simp
  have "dbl A < dbl S"
    using dA dP dS A0 A1 P0 AP unfolding S_def by (simp add: field_simps)
  then show ?thesis
    by (simp add: parseFloat_def A_def P_def S_def)
qed

lemma threshold_high:
  assumes p: "0 \<le> p" "p < 10 ^ 12" and high: "p + 101 \<le> a"
  shows "\<not> parseFloat a < dbl (parseFloat p + 1)"
proof -
  define A :: rat where "A = of_int a / 100"
  define P :: rat where "P = of_int p / 100"
  define S :: rat where "S = dbl P + 1"
  have P0: "0 \<le> P" and P1: "P < 10 ^ 10"
    using p by (simp_all add: A_def P_def)
  have "(of_int p :: rat) + 101 \<le> of_int a"
    using high by (metis of_int_le_iff of_int_add of_int_numeral)
  then have AP: "P + 101 / 100 \<le> A"
    by (simp add: A_def P_def field_simps)
  then have A0: "0 \<le> A" using P0 by simp
  have dA: "A - A / 2 ^ 53 \<le> dbl A" using dbl_bounds_nonneg [OF A0] by simp
  have dP: "dbl P \<le> P + P / 2 ^ 53" "P - P / 2 ^ 53 \<le> dbl P"
    using dbl_bounds_nonneg [OF P0] by simp_all
  have S0: "0 \<le> S" using dP P0 by (simp add: S_def)
  have dS: "dbl S \<le> S + S / 2 ^ 53" using dbl_bounds_nonneg [OF S0] by simp
  have "dbl S \<le> dbl A"
    using dA dP dS A0 P1 P0 AP unfolding S_def by (simp add: field_simps)
  then show ?thesis
    by (simp add: parseFloat_def A_def P_def S_def)
qed

lemma below_required_low:
  assumes "0 \<le> current_price x" "0 \<le> a" "a < 10 ^ 12" "a \<le> current_price x + 99"
  shows "(parseFloat a < requiredMinBid x) = True"
  using threshold_low [of a "current_price x"] assms
  by (simp add: requiredMinBid_def parseFloat_increment)

lemma below_required_high:
  assumes "0 \<le> current_price x" "current_price x < 10 ^ 12" "current_price x + 101 \<le> a"
  shows "(parseFloat a < requiredMinBid x) = False"
  using threshold_high [of "current_price x" a] assms
  by (simp add: requiredMinBid_def parseFloat_increment)

text \<open>
  A bid that passes the minimum-bid test and fits its column is at least the current
  price.
\<close>

lemma passes_not_below_price:
  assumes "\<not> parseFloat a < requiredMinBid x" "1 \<le> a" "fits_decimal a"
  shows "current_price x \<le> a"
proof (rule ccontr)
  assume "\<not> current_price x \<le> a"
  then have "parseFloat a < requiredMinBid x"
    using assms(2,3) by (intro below_required_low [THEN iffD2]) (simp_all add: fits_decimal_def)
  with assms(1) show False by simp
qed

text \<open>The sums that the examples meet at exactly 100 cents over the price are exact.\<close>

lemma required_at_1000: "current_price x = 1000 \<Longrightarrow> (parseFloat 1100 < requiredMinBid x) = False"
  unfolding requiredMinBid_def minBidIncrement_def by simp code_simp

lemma required_at_1200: "current_price x = 1200 \<Longrightarrow> (parseFloat 1300 < requiredMinBid x) = False"
  unfolding requiredMinBid_def minBidIncrement_def by simp code_simp

text \<open>At 1.03 the sum with 1.00 is the double above 2.03: a bid of 2.03 is below the minimum.\<close>

lemma required_at_103: "current_price x = 103 \<Longrightarrow> (parseFloat 203 < requiredMinBid x) = True"
  unfolding requiredMinBid_def minBidIncrement_def by simp code_simp

text \<open>
  Why the proxy logic is given in cents: the doubles of two amounts that fit their columns
  compare as the amounts do, and the double sum of such an amount and the increment lies
  within half a cent of the exact sum, to which the column rounds it.
\<close>

lemma fits_decimal_rat:
  assumes "fits_decimal c"
  shows "\<bar>of_int c / 100 :: rat\<bar> \<le> 10 ^ 8"
proof -
  have "\<bar>c\<bar> < 10 ^ 10" using assms by (simp add: fits_decimal_def)
  then have "(of_int \<bar>c\<bar> :: rat) < of_int (10 ^ 10)"
    by (simp only: of_int_less_iff)
  then have "\<bar>of_int c :: rat\<bar> < 10 ^ 10" by simp
  then show ?thesis by simp
qed

lemma parseFloat_less:
  assumes "fits_decimal a" "fits_decimal b" "a < b"
  shows "parseFloat a < parseFloat b"
proof -
  define A :: rat where "A = of_int a / 100"
  define B :: rat where "B = of_int b / 100"
  have A1: "\<bar>A\<bar> \<le> 10 ^ 8" and B1: "\<bar>B\<bar> \<le> 10 ^ 8"
    using assms(1,2) by (simp_all only: A_def B_def fits_decimal_rat)
  have "(of_int a :: rat) + 1 \<le> of_int b"
    using assms(3) by (metis of_int_le_iff of_int_add of_int_1 zless_imp_add1_zle)
  then have AB: "A + 1 / 100 \<le> B"
    by (simp add: A_def B_def field_simps)
  have "dbl A \<le> A + 10 ^ 8 / 2 ^ 53" "B - 10 ^ 8 / 2 ^ 53 \<le> dbl B"
    using dbl_bounds [OF A1] dbl_bounds [OF B1] by simp_all
  then have "dbl A < dbl B" using AB by simp
  then show ?thesis by (simp add: parseFloat_def A_def B_def)
qed

lemma parseFloat_less_iff:
  assumes "fits_decimal a" "fits_decimal b"
  shows "parseFloat a < parseFloat b \<longleftrightarrow> a < b"
proof
  assume "a < b" then show "parseFloat a < parseFloat b"
    using assms by (rule parseFloat_less [rotated 2])
next
  assume l: "parseFloat a < parseFloat b"
  show "a < b"
  proof (rule ccontr)
    assume "\<not> a < b"
    then consider "a = b" | "b < a" by linarith
    then show False
    proof cases
      case 1 with l show False by simp
    next
      case 2
      then have "parseFloat b < parseFloat a"
        using assms by (intro parseFloat_less)
      with l show False by simp
    qed
  qed
qed


lemmas threshold_simps =
  below_required_low below_required_high required_at_1000 required_at_1200 required_at_103





lemma required_value_4950: "current_price x = 4950 \<Longrightarrow> requiredMinBid x = 101 / 2"
  unfolding requiredMinBid_def minBidIncrement_def by simp code_simp

lemma required_value_103: "current_price x = 103 \<Longrightarrow> 203 / 100 < requiredMinBid x"
  unfolding requiredMinBid_def minBidIncrement_def by simp code_simp

lemma required_at_4950: "current_price x = 4950 \<Longrightarrow> (parseFloat 5000 < requiredMinBid x) = True"
  unfolding requiredMinBid_def minBidIncrement_def by simp code_simp



section \<open>The example states, computed\<close>



lemma after_low_eq:
  "after_low =
     \<lparr>auctions = [listing\<lparr>current_price := 1100, bid_count := 1\<rparr>],
      bids = [\<lparr>auction_id = 1, bidder_id = 2, amount = 1100, max_bid = Some 1100,
               is_winning = True, is_auto_bid = False, created_at = 1000\<rparr>]\<rparr>"
  by (simp add: after_low_def example_defs handler_defs threshold_simps)

lemma after_high_eq:
  "after_high =
     \<lparr>auctions = [listing\<lparr>current_price := 1200, bid_count := 2\<rparr>],
      bids = [\<lparr>auction_id = 1, bidder_id = 2, amount = 1100, max_bid = Some 1100,
               is_winning = False, is_auto_bid = False, created_at = 1000\<rparr>,
              \<lparr>auction_id = 1, bidder_id = 3, amount = 5000, max_bid = Some 5000,
               is_winning = True, is_auto_bid = False, created_at = 2000\<rparr>]\<rparr>"
  by (simp add: after_high_def after_low_eq example_defs handler_defs threshold_simps)

lemma after_proxy_eq:
  "after_proxy =
     \<lparr>auctions = [listing\<lparr>current_price := 5100, bid_count := 3\<rparr>],
      bids = [\<lparr>auction_id = 1, bidder_id = 2, amount = 1100, max_bid = Some 1100,
               is_winning = False, is_auto_bid = False, created_at = 1000\<rparr>,
              \<lparr>auction_id = 1, bidder_id = 3, amount = 5000, max_bid = Some 5000,
               is_winning = False, is_auto_bid = False, created_at = 2000\<rparr>,
              \<lparr>auction_id = 1, bidder_id = 4, amount = 1300, max_bid = Some 20000,
               is_winning = True, is_auto_bid = False, created_at = 3000\<rparr>]\<rparr>"
  by (simp add: after_proxy_def after_high_eq example_defs handler_defs threshold_simps)

lemma after_standing_eq:
  "after_standing =
     \<lparr>auctions = [listing\<lparr>current_price := 1100, bid_count := 1\<rparr>],
      bids = [\<lparr>auction_id = 1, bidder_id = 2, amount = 1100, max_bid = Some 10000,
               is_winning = True, is_auto_bid = False, created_at = 1000\<rparr>]\<rparr>"
  by (simp add: after_standing_def example_defs handler_defs threshold_simps)

lemma after_absorbed_eq:
  "after_absorbed =
     \<lparr>auctions = [listing\<lparr>current_price := 5100, bid_count := 1, end_time := 10180002\<rparr>],
      bids = [\<lparr>auction_id = 1, bidder_id = 2, amount = 1100, max_bid = Some 10000,
               is_winning = True, is_auto_bid = False, created_at = 1000\<rparr>,
              \<lparr>auction_id = 1, bidder_id = 3, amount = 5000, max_bid = Some 5000,
               is_winning = False, is_auto_bid = False, created_at = 9880000\<rparr>]\<rparr>"
  by (simp add: after_absorbed_def after_standing_eq example_defs handler_defs threshold_simps)

lemma after_hundred_eq:
  "after_hundred =
     \<lparr>auctions = [listing\<lparr>current_price := 10000, bid_count := 1\<rparr>],
      bids = [\<lparr>auction_id = 1, bidder_id = 2, amount = 10000, max_bid = Some 10000,
               is_winning = True, is_auto_bid = False, created_at = 1000\<rparr>]\<rparr>"
  by (simp add: after_hundred_def example_defs handler_defs threshold_simps)

lemma after_low_ceiling_eq:
  "after_low_ceiling =
     \<lparr>auctions = [listing\<lparr>current_price := 5100, bid_count := 1\<rparr>],
      bids = [\<lparr>auction_id = 1, bidder_id = 2, amount = 10000, max_bid = Some 10000,
               is_winning = True, is_auto_bid = False, created_at = 1000\<rparr>,
              \<lparr>auction_id = 1, bidder_id = 3, amount = 15000, max_bid = Some 5000,
               is_winning = False, is_auto_bid = False, created_at = 2000\<rparr>]\<rparr>"
  by (simp add: after_low_ceiling_def after_hundred_eq example_defs handler_defs threshold_simps)

lemma buy_now_opened_eq:
  "buy_now_opened =
     \<lparr>auctions = [listing_buy_now\<lparr>current_price := 1100, bid_count := 1\<rparr>],
      bids = [\<lparr>auction_id = 1, bidder_id = 2, amount = 1100, max_bid = Some 1100,
               is_winning = True, is_auto_bid = False, created_at = 1000\<rparr>]\<rparr>"
  by (simp add: buy_now_opened_def example_defs handler_defs threshold_simps)

lemma buy_now_bought_eq:
  "buy_now_bought =
     \<lparr>auctions = [listing_buy_now\<lparr>current_price := 5000, status := Sold, end_time := 2000,
                                   bid_count := 1, winner_id := Some 3\<rparr>],
      bids = [\<lparr>auction_id = 1, bidder_id = 2, amount = 1100, max_bid = Some 1100,
               is_winning = True, is_auto_bid = False, created_at = 1000\<rparr>,
              \<lparr>auction_id = 1, bidder_id = 3, amount = 5000, max_bid = None,
               is_winning = True, is_auto_bid = False, created_at = 2000\<rparr>]\<rparr>"
  by (simp add: buy_now_bought_def buy_now_opened_eq example_defs handler_defs threshold_simps)

lemma reserve_met_db_eq:
  "reserve_met_db =
     \<lparr>auctions = [listing_reserve\<lparr>current_price := 25000, bid_count := 1\<rparr>],
      bids = [\<lparr>auction_id = 1, bidder_id = 2, amount = 25000, max_bid = Some 25000,
               is_winning = True, is_auto_bid = False, created_at = 1000\<rparr>]\<rparr>"
  by (simp add: reserve_met_db_def example_defs handler_defs threshold_simps)

lemma reserve_missed_db_eq:
  "reserve_missed_db =
     \<lparr>auctions = [listing_reserve\<lparr>current_price := 15000, bid_count := 1\<rparr>],
      bids = [\<lparr>auction_id = 1, bidder_id = 2, amount = 15000, max_bid = Some 15000,
               is_winning = True, is_auto_bid = False, created_at = 1000\<rparr>]\<rparr>"
  by (simp add: reserve_missed_db_def example_defs handler_defs threshold_simps)

lemma reserve_high_db_eq:
  "reserve_high_db =
     \<lparr>auctions = [listing_reserve\<lparr>current_price := 100000, bid_count := 1\<rparr>],
      bids = [\<lparr>auction_id = 1, bidder_id = 2, amount = 100000, max_bid = Some 100000,
               is_winning = True, is_auto_bid = False, created_at = 1000\<rparr>]\<rparr>"
  by (simp add: reserve_high_db_def example_defs handler_defs threshold_simps)

section \<open>Facts about the tables\<close>

text \<open>
  \<^verbatim>\<open>id\<close> is the primary key of \<^verbatim>\<open>auctions\<close>: the theorems that read the row of an auction
  after an operation assume \<open>distinct (map a_id (auctions s))\<close>, which every operation
  keeps.
\<close>

lemma find_by_id_map:
  assumes "\<And>a. a_id (f a) = a_id a"
  shows "find (\<lambda>a. a_id a = k) (map (\<lambda>a. if a_id a = aid then f a else a) xs) =
         (if k = aid then map_option f (find (\<lambda>a. a_id a = aid) xs)
          else find (\<lambda>a. a_id a = k) xs)"
  using assms by (induction xs) auto

lemma auction_row_update_auctions:
  assumes "\<And>a. a_id (f a) = a_id a"
  shows "auction_row (update_auctions aid f s) k =
         (if k = aid then map_option f (auction_row s aid) else auction_row s k)"
  using find_by_id_map [of f k aid "auctions s", OF assms]
  by (simp add: auction_row_def update_auctions_def)

lemma auction_row_insert_bid [simp]: "auction_row (insert_bid b s) k = auction_row s k"
  by (simp add: auction_row_def insert_bid_def)

lemma auction_row_clear_winning [simp]: "auction_row (clear_winning aid s) k = auction_row s k"
  by (simp add: auction_row_def clear_winning_def)

lemma bids_update_auctions [simp]: "bids (update_auctions aid f s) = bids s"
  by (simp add: update_auctions_def)

lemma bids_insert_bid [simp]: "bids (insert_bid b s) = bids s @ [b]"
  by (simp add: insert_bid_def)

lemma find_active_by_id:
  assumes "distinct (map a_id xs)"
  shows "find (\<lambda>a. a_id a = aid \<and> status a = Active \<and> now < end_time a) xs =
         (case find (\<lambda>a. a_id a = aid) xs of
            None \<Rightarrow> None
          | Some a \<Rightarrow> if status a = Active \<and> now < end_time a then Some a else None)"
  using assms
proof (induction xs)
  case Nil
  then show ?case by simp
next
  case (Cons x xs)
  show ?case
  proof (cases "a_id x = aid")
    case True
    with Cons.prems have "\<forall>y\<in>set xs. a_id y \<noteq> aid"
      by (metis distinct.simps(2) image_eqI list.simps(9) set_map)
    then have "find (\<lambda>a. a_id a = aid \<and> status a = Active \<and> now < end_time a) xs = None"
      by (auto simp: find_None_iff)
    with True show ?thesis by simp
  next
    case False
    with Cons show ?thesis by simp
  qed
qed

lemma select_active_row:
  "distinct (map a_id (auctions s)) \<Longrightarrow>
   select_active aid now s =
     (case auction_row s aid of
        None \<Rightarrow> None
      | Some a \<Rightarrow> if status a = Active \<and> now < end_time a then Some a else None)"
  by (simp add: select_active_def auction_row_def find_active_by_id)

lemma winning_bids_update_auctions [simp]:
  "winning_bids (update_auctions aid f s) k = winning_bids s k"
  by (simp add: winning_bids_def update_auctions_def)

lemma winning_bids_insert_bid:
  "winning_bids (insert_bid b s) k =
     winning_bids s k @ (if auction_id b = k \<and> is_winning b then [b] else [])"
  by (simp add: winning_bids_def insert_bid_def)

lemma filter_cleared:
  "filter (\<lambda>b. auction_id b = k \<and> is_winning b)
     (map (\<lambda>b. if auction_id b = aid \<and> is_winning b then b\<lparr>is_winning := False\<rparr> else b) bs) =
   (if k = aid then [] else filter (\<lambda>b. auction_id b = k \<and> is_winning b) bs)"
  by (induction bs) auto

lemma winning_bids_clear_winning:
  "winning_bids (clear_winning aid s) k = (if k = aid then [] else winning_bids s k)"
  by (simp add: winning_bids_def clear_winning_def filter_cleared)

lemma latest_None_iff: "latest bs = None \<longleftrightarrow> bs = []"
  by (cases bs) (auto split: option.splits)



section \<open>Facts about the handler\<close>

lemma rejected_unchanged:
  "fst (place_bid clk req s) = Rejected e \<Longrightarrow> snd (place_bid clk req s) = s"
  by (auto simp: place_bid_def buy_now_def normal_bid_def Let_def
      split: option.splits if_splits prod.splits)

lemma auctions_ids_place_bid:
  "map a_id (auctions (snd (place_bid clk req s))) = map a_id (auctions s)"
  by (auto simp: place_bid_def buy_now_def normal_bid_def proxy_bidding_def anti_snipe_def
      update_auctions_def insert_bid_def clear_winning_def Let_def comp_def
      split: option.splits if_splits prod.splits)

lemma other_auction_row:
  "req_auctionId req \<noteq> aid \<Longrightarrow>
   auction_row (snd (place_bid clk req s)) aid = auction_row s aid"
  by (auto simp: place_bid_def buy_now_def normal_bid_def proxy_bidding_def anti_snipe_def
      auction_row_update_auctions Let_def split: option.splits if_splits prod.splits)

lemma other_winning_bids:
  "req_auctionId req \<noteq> aid \<Longrightarrow>
   winning_bids (snd (place_bid clk req s)) aid = winning_bids s aid"
  by (auto simp: place_bid_def buy_now_def normal_bid_def proxy_bidding_def anti_snipe_def
      winning_bids_insert_bid winning_bids_clear_winning Let_def
      split: option.splits if_splits prod.splits)

text \<open>The three outcomes of the handler on an auction whose row is \<open>a\<close>.\<close>

lemma place_bid_cases:
  assumes pk: "distinct (map a_id (auctions s))"
    and row: "auction_row s (req_auctionId req) = Some a"
  shows "(\<exists>e. place_bid clk req s = (Rejected e, s))
       \<or> (\<exists>p. place_bid clk req s = buy_now clk req p s)
       \<or> (valid_request req \<and> \<not> parseFloat (req_amount req) < requiredMinBid a
           \<and> fits_decimal (req_amount req)
           \<and> place_bid clk req s = normal_bid clk req a s
           \<and> (\<exists>ev. fst (normal_bid clk req a s) = Placed ev))"
  using row
  by (auto simp: place_bid_def normal_bid_def select_active_row [OF pk] Let_def
      split: option.splits prod.splits)

lemma buy_now_status:
  "auction_row (snd (buy_now clk req p s)) (req_auctionId req) = Some a'
   \<Longrightarrow> status a' = Sold"
  by (auto simp: buy_now_def Let_def auction_row_update_auctions)

lemma proxy_price:
  "fst (proxy_bidding req s) =
     (case current_highest_bid (req_auctionId req) s of
        None \<Rightarrow> req_amount req
      | Some w \<Rightarrow>
          if js_or (req_maxBid req) (req_amount req) \<le> stored_ceiling w
          then min (js_or (req_maxBid req) (req_amount req) + minBidIncrement)
                   (stored_ceiling w)
          else min (stored_ceiling w + minBidIncrement)
                   (js_or (req_maxBid req) (req_amount req)))"
  by (simp add: proxy_bidding_def Let_def split: option.splits)

lemma normal_bid_price:
  assumes "auction_row s (req_auctionId req) = Some a"
    and "fst (normal_bid clk req a0 s) = Placed ev"
  shows "map_option current_price
           (auction_row (snd (normal_bid clk req a0 s)) (req_auctionId req)) =
         Some (fst (proxy_bidding req s))"
  using assms
  by (auto simp: normal_bid_def proxy_bidding_def anti_snipe_def Let_def
      auction_row_update_auctions split: option.splits prod.splits if_splits)

lemma normal_bid_highest:
  "fst (normal_bid clk req a0 s) = Placed ev \<Longrightarrow>
   current_highest_bid (req_auctionId req) (snd (normal_bid clk req a0 s)) =
     (case current_highest_bid (req_auctionId req) s of
        Some w \<Rightarrow>
          if js_or (req_maxBid req) (req_amount req) \<le> stored_ceiling w
          then Some w
          else Some \<lparr>auction_id = req_auctionId req, bidder_id = req_user req,
                     amount = req_amount req,
                     max_bid = Some (js_or (req_maxBid req) (req_amount req)),
                     is_winning = True, is_auto_bid = False, created_at = sql_now clk\<rparr>
      | None \<Rightarrow>
          Some \<lparr>auction_id = req_auctionId req, bidder_id = req_user req,
                amount = req_amount req,
                max_bid = Some (js_or (req_maxBid req) (req_amount req)),
                is_winning = True, is_auto_bid = False, created_at = sql_now clk\<rparr>)"
  by (auto simp: normal_bid_def proxy_bidding_def anti_snipe_def Let_def
      current_highest_bid_def winning_bids_insert_bid winning_bids_clear_winning latest_None_iff
      split: option.splits prod.splits if_splits)

lemma ceiling_ge_amount:
  "valid_request req \<Longrightarrow> ceiling_ok req \<Longrightarrow>
   req_amount req \<le> js_or (req_maxBid req) (req_amount req)"
  by (auto simp: valid_request_def ceiling_ok_def js_or_def split: option.splits)

text \<open>The displayed price of an auction with no winning bid is covered.\<close>

lemma price_covered_fresh: "winning_bids s aid = [] \<Longrightarrow> price_covered s aid"
  by (simp add: price_covered_def current_highest_bid_def split: option.splits)

text \<open>An auction that is not active stays so, and every request on it is rejected.\<close>

lemma closed_stays_closed:
  assumes pk: "distinct (map a_id (auctions s))"
    and row: "auction_row s aid = Some a" and st: "status a \<noteq> Active"
  shows "\<exists>a'. auction_row (snd (place_bid clk req s)) aid = Some a' \<and> status a' \<noteq> Active"
  using row st
  by (auto simp: place_bid_def buy_now_def normal_bid_def proxy_bidding_def anti_snipe_def
      select_active_row [OF pk] auction_row_update_auctions Let_def
      split: option.splits if_splits prod.splits)

lemma closed_rejects:
  assumes pk: "distinct (map a_id (auctions s))"
    and row: "auction_row s aid = Some a" and st: "status a \<noteq> Active"
    and "req_auctionId req = aid"
  shows "is_rejected (fst (place_bid clk req s))"
  using assms by (simp add: place_bid_def select_active_row [OF pk])

lemma closed_rejects_all:
  assumes "distinct (map a_id (auctions s))"
    and "auction_row s aid = Some a" and "status a \<noteq> Active"
  shows "list_all (rejects_on aid) (zip calls (fst (place_bids calls s)))"
  using assms
proof (induction calls arbitrary: s a)
  case Nil
  then show ?case by simp
next
  case (Cons c calls)
  obtain clk req where c: "c = (clk, req)" by (cases c)
  obtain r s1 where step: "place_bid clk req s = (r, s1)" by (cases "place_bid clk req s")
  have pk1: "distinct (map a_id (auctions s1))"
    using auctions_ids_place_bid [of clk req s] step Cons.prems(1) by simp
  obtain a1 where a1: "auction_row s1 aid = Some a1" "status a1 \<noteq> Active"
    using closed_stays_closed [OF Cons.prems, of clk req] step by auto
  have rest: "list_all (rejects_on aid) (zip calls (fst (place_bids calls s1)))"
    using Cons.IH [OF pk1 a1] .
  have here: "rejects_on aid ((clk, req), r)"
    using closed_rejects [OF Cons.prems, of req clk] step by (auto simp: rejects_on_def)
  show ?case
    using rest here by (auto simp: c step split: prod.splits)
qed

section \<open>Winning rows on the ordinary path\<close>

text \<open>
  A bid placed on the ordinary path leaves its auction with exactly one winning row when
  it had at most one before, and leaves the winning rows of every other auction alone.
\<close>

lemma normal_bid_winning_bids:
  "fst (normal_bid clk req a0 s) = Placed ev \<Longrightarrow>
   winning_bids (snd (normal_bid clk req a0 s)) (req_auctionId req) =
     (case current_highest_bid (req_auctionId req) s of
        Some w \<Rightarrow>
          if js_or (req_maxBid req) (req_amount req) \<le> stored_ceiling w
          then winning_bids s (req_auctionId req)
          else [\<lparr>auction_id = req_auctionId req, bidder_id = req_user req,
                 amount = req_amount req,
                 max_bid = Some (js_or (req_maxBid req) (req_amount req)),
                 is_winning = True, is_auto_bid = False, created_at = sql_now clk\<rparr>]
      | None \<Rightarrow>
          [\<lparr>auction_id = req_auctionId req, bidder_id = req_user req,
            amount = req_amount req,
            max_bid = Some (js_or (req_maxBid req) (req_amount req)),
            is_winning = True, is_auto_bid = False, created_at = sql_now clk\<rparr>])"
  by (auto simp: normal_bid_def proxy_bidding_def anti_snipe_def Let_def
      current_highest_bid_def winning_bids_insert_bid winning_bids_clear_winning latest_None_iff
      split: option.splits prod.splits if_splits)

lemma placed_is_normal_bid:
  "fst (place_bid clk req s) = Placed ev \<Longrightarrow>
   \<exists>a. select_active (req_auctionId req) (sql_now clk) s = Some a
       \<and> valid_request req \<and> seller_id a \<noteq> req_user req
       \<and> \<not> parseFloat (req_amount req) < requiredMinBid a
       \<and> \<not> meets_buy_now a (req_amount req)
       \<and> place_bid clk req s = normal_bid clk req a s"
  by (auto simp: place_bid_def buy_now_def Let_def split: option.splits if_splits)

lemma ordinary_path_single_winner:
  assumes "fst (place_bid clk req s) = Placed ev"
    and "length (winning_bids s (req_auctionId req)) \<le> 1"
  shows "length (winning_bids (snd (place_bid clk req s)) (req_auctionId req)) = 1"
proof -
  obtain a where pb: "place_bid clk req s = normal_bid clk req a s"
    using placed_is_normal_bid [OF assms(1)] by blast
  have pl: "fst (normal_bid clk req a s) = Placed ev"
    using assms(1) pb by simp
  show ?thesis
  proof (cases "current_highest_bid (req_auctionId req) s")
    case None
    then show ?thesis by (simp add: pb normal_bid_winning_bids [OF pl])
  next
    case (Some w)
    then have "winning_bids s (req_auctionId req) \<noteq> []"
      by (auto simp: current_highest_bid_def)
    then have "length (winning_bids s (req_auctionId req)) = 1"
      using assms(2) by (cases "winning_bids s (req_auctionId req)") auto
    then show ?thesis using Some by (simp add: pb normal_bid_winning_bids [OF pl])
  qed
qed

section \<open>Facts about the scheduler\<close>

text \<open>
  The sweep's query is refused, so the sweep ends nothing; and \<^verbatim>\<open>endAuction\<close>, on any
  row, is rolled back at its \<^verbatim>\<open>UPDATE\<close>. Neither changes a table.
\<close>

lemma sweep_query_fails: "sweep_query now s = None"
  by (simp add: sweep_query_def bids_columns_def)

lemma update_closed_fails: "update_closed st w aid s = None"
  by (simp add: update_closed_def auctions_columns_def)

lemma endAuction_unchanged: "endAuction e s = s"
  by (simp add: endAuction_def update_closed_fails split: prod.splits)

lemma processEndingAuctions_unchanged: "processEndingAuctions now s = s"
  by (simp add: processEndingAuctions_def sweep_query_fails)

text \<open>
  What \<^verbatim>\<open>endAuction\<close> decides before its \<^verbatim>\<open>UPDATE\<close>, on the rows that the query
  would give for the listing with a reserve of 200.00. With a bid of 250.00 it decides
  \<^verbatim>\<open>'completed'\<close>, a status that the \<^verbatim>\<open>CHECK\<close> constraint does not admit; with a bid
  of 150.00, \<^verbatim>\<open>'ended'\<close>; and with a bid of 1000.00 \<^verbatim>\<open>'ended'\<close> too, since the text
  \<^verbatim>\<open>1000.00\<close> is before the text \<^verbatim>\<open>200.00\<close>.
\<close>

lemma decimal_text_examples:
  "decimal_text 20000 = ''200.00'' \<and> decimal_text 25000 = ''250.00''
   \<and> decimal_text 15000 = ''150.00'' \<and> decimal_text 100000 = ''1000.00''"
  by (simp add: decimal_text_def digit_def)

lemma end_decision_examples:
  "map (end_decision \<circ> ending_row reserve_met_db) (auctions reserve_met_db) =
     [(Completed, Some 2, 25000)]"
  "map (end_decision \<circ> ending_row reserve_missed_db) (auctions reserve_missed_db) =
     [(Ended, None, 1000)]"
  "map (end_decision \<circ> ending_row reserve_high_db) (auctions reserve_high_db) =
     [(Ended, None, 1000)]"
  "Completed \<notin> set status_check"
  by (simp_all add: reserve_met_db_eq reserve_missed_db_eq reserve_high_db_eq
      end_decision_def completes_def reserve_met_def truthy_def ending_row_def highest_bid_def
      bids_of_def decimal_text_examples status_check_def example_defs)

section \<open>Rejection of a bid below the minimum\<close>




section \<open>The increment is a constant\<close>



section \<open>The proxy rule\<close>




section \<open>Buy now\<close>

text \<open>
  Claim C2, as amended. On an active auction with a buy-now price \<open>p\<close>, a well-formed bid
  of a bidder other than the seller whose amount is at least \<open>p\<close> and passes the
  minimum-bid validation, which runs before the buy-now test and as the handler computes
  it (the double of the amount is not below the double sum of the current price and 1.00),
  is answered as a purchase: the row of the auction gets the status sold, the bidder as
  winner, the current price \<open>p\<close> and the end time now, whatever bids were there before and
  without the proxy logic; and in every later stream of requests, each request on that
  auction is rejected. The validation is passed by every amount above the current price
  plus 1.00 (\<open>not_below_required\<close>), and failed by every amount below it
  (\<open>below_required\<close>).
\<close>

theorem C2_buy_now:
  assumes pk: "distinct (map a_id (auctions s))"
    and sel: "select_active (req_auctionId req) (sql_now clk) s = Some a"
    and ns: "seller_id a \<noteq> req_user req" and v: "valid_request req"
    and bn: "buy_now_price a = Some p" "p \<le> req_amount req"
    and minb: "\<not> parseFloat (req_amount req) < requiredMinBid a"
  shows "fst (place_bid clk req s) = BoughtNow (req_user req) p
       \<and> auction_row (snd (place_bid clk req s)) (req_auctionId req) =
           Some (a\<lparr>current_price := p, status := Sold,
                    winner_id := Some (req_user req), end_time := sql_now clk\<rparr>)
       \<and> (\<forall>calls. list_all (rejects_on (req_auctionId req))
                     (zip calls (fst (place_bids calls (snd (place_bid clk req s))))))"
proof -
  have row: "auction_row s (req_auctionId req) = Some a"
    using sel by (auto simp: select_active_row [OF pk] split: option.splits if_splits)
  have pb: "place_bid clk req s = buy_now clk req p s"
    using sel ns v bn minb by (simp add: place_bid_def meets_buy_now_def)
  have r1: "fst (place_bid clk req s) = BoughtNow (req_user req) p"
    by (simp add: pb buy_now_def Let_def)
  have r2: "auction_row (snd (place_bid clk req s)) (req_auctionId req) =
           Some (a\<lparr>current_price := p, status := Sold,
                    winner_id := Some (req_user req), end_time := sql_now clk\<rparr>)"
    by (simp add: pb buy_now_def Let_def auction_row_update_auctions row)
  have pk1: "distinct (map a_id (auctions (snd (place_bid clk req s))))"
    using pk by (simp add: auctions_ids_place_bid)
  have r3: "list_all (rejects_on (req_auctionId req))
                     (zip calls (fst (place_bids calls (snd (place_bid clk req s)))))" for calls
    by (rule closed_rejects_all [OF pk1 r2]) simp
  show ?thesis using r1 r2 r3 by blast
qed

text \<open>
  On the buy-now listing (50.00) with a standing bid of 11.00, a bid of 50.00 buys the item;
  a later bid of 90.00 is rejected.
\<close>

theorem C2_buy_now_witness:
  "distinct (map a_id (auctions buy_now_opened))
   \<and> select_active 1 2000 buy_now_opened =
       Some (listing_buy_now\<lparr>current_price := 1100, bid_count := 1\<rparr>)
   \<and> \<not> parseFloat 5000 < requiredMinBid (listing_buy_now\<lparr>current_price := 1100, bid_count := 1\<rparr>)
   \<and> fst (place_bid (clock_at 2000) (bid_req 3 5000 None) buy_now_opened) = BoughtNow 3 5000
   \<and> auction_row buy_now_bought 1 =
       Some (listing_buy_now\<lparr>current_price := 5000, bid_count := 1, status := Sold,
                             winner_id := Some 3, end_time := 2000\<rparr>)
   \<and> fst (place_bids [(clock_at 3000, bid_req 4 9000 None)] buy_now_bought) =
       [Rejected AuctionNotFound]"
proof -
  let ?a = "listing_buy_now\<lparr>current_price := 1100, bid_count := 1\<rparr>"
  let ?r = "bid_req 3 5000 None"
  have pk: "distinct (map a_id (auctions buy_now_opened))"
    by (simp add: buy_now_opened_eq)
  have sel: "select_active (req_auctionId ?r) (sql_now (clock_at 2000)) buy_now_opened = Some ?a"
    by (simp add: buy_now_opened_eq select_active_def example_defs)
  have ns: "seller_id ?a \<noteq> req_user ?r"
    by (simp add: example_defs)
  have v: "valid_request ?r"
    by (simp add: example_defs valid_request_def)
  have bn: "buy_now_price ?a = Some 5000" "5000 \<le> req_amount ?r"
    by (simp_all add: example_defs)
  have minb: "\<not> parseFloat (req_amount ?r) < requiredMinBid ?a"
    by (simp add: example_defs threshold_simps)
  from C2_buy_now [OF pk sel ns v bn minb] pk sel minb show ?thesis
    by (simp add: buy_now_bought_eq example_defs select_active_def place_bid_def
        valid_request_def auction_row_def)
qed

text \<open>
  The claim as stated lets every amount of at least the buy-now price buy the item,
  bypassing the increment. On a listing at 49.50 with a buy-now price of 50.00, a bid of
  50.00 is rejected with the minimum 50.50, and the auction stays as it was. On a listing
  at 1.03 with a buy-now price of 2.03, a bid of 2.03, the current price plus 1.00, is
  rejected too: the double sum of 1.03 and 1.00 is above 2.03.
\<close>

theorem C2_below_minimum_counterexample:
  "select_active 1 1000 (db_of listing_buy_now_close) = Some listing_buy_now_close
   \<and> buy_now_price listing_buy_now_close = Some 5000
   \<and> req_amount (bid_req 2 5000 None) = 5000
   \<and> place_bid (clock_at 1000) (bid_req 2 5000 None) (db_of listing_buy_now_close) =
       (Rejected (InvalidBidAmount (101 / 2)), db_of listing_buy_now_close)
   \<and> status listing_buy_now_close = Active
   \<and> select_active 1 1000 (db_of listing_103) = Some listing_103
   \<and> buy_now_price listing_103 = Some 203
   \<and> current_price listing_103 + minBidIncrement = 203
   \<and> place_bid (clock_at 1000) (bid_req 2 203 None) (db_of listing_103) =
       (Rejected (InvalidBidAmount (requiredMinBid listing_103)), db_of listing_103)
   \<and> 203 / 100 < requiredMinBid listing_103"
proof -
  have "requiredMinBid listing_buy_now_close = 101 / 2"
    by (rule required_value_4950) (simp add: example_defs)
  moreover have "parseFloat 5000 < requiredMinBid listing_buy_now_close"
    using required_at_4950 [of listing_buy_now_close] by (simp add: example_defs)
  moreover have "203 / 100 < requiredMinBid listing_103"
    by (rule required_value_103) (simp add: example_defs)
  moreover have "parseFloat 203 < requiredMinBid listing_103"
    using required_at_103 [of listing_103] by (simp add: example_defs)
  ultimately show ?thesis
    by (simp add: example_defs handler_defs)
qed

section \<open>Anti-snipe extension\<close>

text \<open>
  Claim C5, as amended. When a bid is accepted on the ordinary path (not as a buy-now
  purchase) and the end time read by the handler minus the time of the test is less than
  five minutes, the end time becomes the time of the extension plus five minutes; when at
  least five minutes remain, the end time is unchanged; in both cases the end time is not
  earlier than before, the clock not running backwards between the test and the
  extension. A rejected bid changes nothing and a bid on another auction leaves the row of
  this one as it was.
\<close>

theorem C5_anti_snipe:
  assumes pk: "distinct (map a_id (auctions s))"
    and row: "auction_row s (req_auctionId req) = Some a"
    and mono: "js_now_check clk \<le> js_now_extend clk"
  shows "(\<forall>ev. fst (place_bid clk req s) = Placed ev \<longrightarrow>
            map_option end_time (auction_row (snd (place_bid clk req s)) (req_auctionId req)) =
              Some (if end_time a - js_now_check clk < fiveMinutes
                    then js_now_extend clk + fiveMinutes else end_time a)
            \<and> end_time a \<le> (if end_time a - js_now_check clk < fiveMinutes
                    then js_now_extend clk + fiveMinutes else end_time a))
       \<and> (\<forall>e. fst (place_bid clk req s) = Rejected e \<longrightarrow> snd (place_bid clk req s) = s)
       \<and> (\<forall>req'. req_auctionId req' \<noteq> req_auctionId req \<longrightarrow>
            auction_row (snd (place_bid clk req' s)) (req_auctionId req) = Some a)"
proof -
  have accepted: "\<forall>ev. fst (place_bid clk req s) = Placed ev \<longrightarrow>
            map_option end_time (auction_row (snd (place_bid clk req s)) (req_auctionId req)) =
              Some (if end_time a - js_now_check clk < fiveMinutes
                    then js_now_extend clk + fiveMinutes else end_time a)
            \<and> end_time a \<le> (if end_time a - js_now_check clk < fiveMinutes
                    then js_now_extend clk + fiveMinutes else end_time a)"
    using row mono
    by (auto simp: place_bid_def buy_now_def normal_bid_def proxy_bidding_def anti_snipe_def
        select_active_row [OF pk] auction_row_update_auctions Let_def
        split: option.splits if_splits prod.splits)
  have rejected: "\<forall>e. fst (place_bid clk req s) = Rejected e \<longrightarrow> snd (place_bid clk req s) = s"
    using rejected_unchanged by blast
  have other: "\<forall>req'. req_auctionId req' \<noteq> req_auctionId req \<longrightarrow>
            auction_row (snd (place_bid clk req' s)) (req_auctionId req) = Some a"
    using row by (simp add: other_auction_row)
  show ?thesis using accepted rejected other by blast
qed

text \<open>
  A bid accepted two minutes before the end moves the end to five minutes after the time of
  the extension; the same bid ten minutes before the end leaves the end time alone.
\<close>

theorem C5_anti_snipe_witness:
  "auction_row after_standing 1 = Some (listing\<lparr>current_price := 1100, bid_count := 1\<rparr>)
   \<and> end_time listing - js_now_check (clock_at 9880000) = 119999
   \<and> js_now_extend (clock_at 9880000) + fiveMinutes = 10180002
   \<and> map_option end_time
        (auction_row (snd (place_bid (clock_at 9880000) (bid_req 3 5000 None) after_standing)) 1) =
       Some 10180002
   \<and> map_option end_time
        (auction_row (snd (place_bid (clock_at 9400000) (bid_req 3 5000 None) after_standing)) 1) =
       Some 10000000"
proof -
  let ?a = "listing\<lparr>current_price := 1100, bid_count := 1\<rparr>"
  let ?r = "bid_req 3 5000 None"
  have pk: "distinct (map a_id (auctions after_standing))"
    by (simp add: after_standing_eq)
  have row: "auction_row after_standing (req_auctionId ?r) = Some ?a"
    by (simp add: after_standing_eq auction_row_def example_defs)
  have mono: "js_now_check (clock_at t) \<le> js_now_extend (clock_at t)" for t
    by (simp add: clock_at_def)
  have late: "fst (place_bid (clock_at 9880000) ?r after_standing) =
      Placed \<lparr>ev_bidder = 3, ev_amount = 5000, ev_currentPrice = 5100, ev_isWinning = False,
              ev_bidCount = 2, ev_timeRemaining = 119997\<rparr>"
    by (simp add: after_standing_eq example_defs handler_defs threshold_simps)
  have early: "fst (place_bid (clock_at 9400000) ?r after_standing) =
      Placed \<lparr>ev_bidder = 3, ev_amount = 5000, ev_currentPrice = 5100, ev_isWinning = False,
              ev_bidCount = 2, ev_timeRemaining = 599997\<rparr>"
    by (simp add: after_standing_eq example_defs handler_defs threshold_simps)
  from C5_anti_snipe [OF pk row mono, of 9880000] C5_anti_snipe [OF pk row mono, of 9400000]
    late early row
  show ?thesis
    by (simp add: example_defs fiveMinutes_def)
qed

text \<open>
  The claim as stated covers every accepted bid. A buy-now purchase two minutes before the
  end is accepted, and the end time becomes the time of the purchase: it is not moved to
  five minutes later, and it is earlier than before.
\<close>

theorem C5_buy_now_counterexample:
  "end_time listing_buy_now - js_now_check (clock_at 9880000) = 119999
   \<and> fst (place_bid (clock_at 9880000) (bid_req 3 5000 None) (db_of listing_buy_now)) =
       BoughtNow 3 5000
   \<and> map_option end_time
        (auction_row (snd (place_bid (clock_at 9880000) (bid_req 3 5000 None)
           (db_of listing_buy_now))) 1) = Some 9880000
   \<and> end_time listing_buy_now = 10000000"
  by (simp add: example_defs handler_defs threshold_simps auction_row_def)

section \<open>Monotonic price\<close>

text \<open>
  Claim C7, as amended. Let the displayed price of an auction be covered by the ceiling of
  its current winning bid (it is when the auction has no winning bid). Then a request
  whose \<^verbatim>\<open>maxBid\<close> is absent or at least its amount, on any auction and with any outcome
  that leaves this auction active, does not decrease the displayed price of this auction,
  and the price stays covered. Nothing is said of the amounts of the winning bids: a bid
  row holds the submitted amount.
\<close>

theorem C7_price_monotone:
  assumes pk: "distinct (map a_id (auctions s))"
    and row: "auction_row s aid = Some a"
    and inv: "price_covered s aid"
    and ok: "ceiling_ok req"
    and row': "auction_row (snd (place_bid clk req s)) aid = Some a'"
    and act: "status a' = Active"
  shows "current_price a \<le> current_price a' \<and> price_covered (snd (place_bid clk req s)) aid"
proof (cases "req_auctionId req = aid")
  case False
  then show ?thesis
    using row row' inv
    by (simp add: price_covered_def current_highest_bid_def other_auction_row other_winning_bids)
next
  case True
  note rw = row [folded True]
  consider (rej) e where "place_bid clk req s = (Rejected e, s)"
    | (buy) p where "place_bid clk req s = buy_now clk req p s"
    | (norm) ev where "valid_request req"
        "\<not> parseFloat (req_amount req) < requiredMinBid a" "fits_decimal (req_amount req)"
        "place_bid clk req s = normal_bid clk req a s"
        "fst (normal_bid clk req a s) = Placed ev"
    using place_bid_cases [OF pk rw, of clk] by blast
  then show ?thesis
  proof cases
    case rej
    then show ?thesis using row row' inv by simp
  next
    case buy
    then have "status a' = Sold"
      using row' True buy_now_status [of clk req p s a'] by simp
    with act show ?thesis by simp
  next
    case norm
    let ?M = "js_or (req_maxBid req) (req_amount req)"
    let ?s' = "snd (normal_bid clk req a s)"
    have M: "req_amount req \<le> ?M"
      using ceiling_ge_amount [OF norm(1) ok] .
    have amt: "current_price a \<le> req_amount req"
      using passes_not_below_price [OF norm(2) _ norm(3)] norm(1)
      by (simp add: valid_request_def)
    have price': "current_price a' = fst (proxy_bidding req s)"
      using normal_bid_price [OF rw norm(5)] row' norm(4) True by simp
    have hb': "current_highest_bid aid ?s' =
      (case current_highest_bid aid s of
        Some w \<Rightarrow>
          if ?M \<le> stored_ceiling w then Some w
          else Some \<lparr>auction_id = aid, bidder_id = req_user req,
                     amount = req_amount req, max_bid = Some ?M,
                     is_winning = True, is_auto_bid = False, created_at = sql_now clk\<rparr>
      | None \<Rightarrow>
          Some \<lparr>auction_id = aid, bidder_id = req_user req,
                amount = req_amount req, max_bid = Some ?M,
                is_winning = True, is_auto_bid = False, created_at = sql_now clk\<rparr>)"
      using normal_bid_highest [OF norm(5)] unfolding True .
    have inc: "0 \<le> minBidIncrement" by (simp add: minBidIncrement_def)
    show ?thesis
    proof (cases "current_highest_bid aid s")
      case None
      then have "current_price a' = req_amount req"
        using price' True by (simp add: proxy_price)
      then show ?thesis
        using norm(4) M amt None hb' row'
        by (simp add: price_covered_def stored_ceiling_def)
    next
      case (Some w)
      then have cov: "current_price a \<le> stored_ceiling w"
        using inv row by (simp add: price_covered_def)
      show ?thesis
        using norm(4) M amt inc Some hb' row' cov price' True
        by (auto simp: price_covered_def proxy_price stored_ceiling_def [of "\<lparr>auction_id = _, bidder_id = _, amount = _, max_bid = _, is_winning = _, is_auto_bid = _, created_at = _\<rparr>"])
    qed
  qed
qed

text \<open>
  With bidder 3 winning at the displayed price 12.00 under a ceiling of 50.00, the bid of
  bidder 4 (13.00, ceiling 200.00) raises the displayed price to 51.00.
\<close>

theorem C7_price_monotone_witness:
  "distinct (map a_id (auctions after_high))
   \<and> price_covered after_high 1
   \<and> ceiling_ok (bid_req 4 1300 (Some 20000))
   \<and> map_option current_price (auction_row after_high 1) = Some 1200
   \<and> map_option current_price (auction_row after_proxy 1) = Some 5100
   \<and> map_option status (auction_row after_proxy 1) = Some Active
   \<and> price_covered after_proxy 1"
proof -
  let ?a = "listing\<lparr>current_price := 1200, bid_count := 2\<rparr>"
  let ?a' = "listing\<lparr>current_price := 5100, bid_count := 3\<rparr>"
  let ?r = "bid_req 4 1300 (Some 20000)"
  have pk: "distinct (map a_id (auctions after_high))"
    by (simp add: after_high_eq)
  have row: "auction_row after_high 1 = Some ?a"
    by (simp add: after_high_eq auction_row_def example_defs)
  have inv: "price_covered after_high 1"
    by (simp add: price_covered_def after_high_eq auction_row_def current_highest_bid_def
        winning_bids_def stored_ceiling_def example_defs)
  have ok: "ceiling_ok ?r"
    by (simp add: ceiling_ok_def example_defs)
  have row': "auction_row after_proxy 1 = Some ?a'"
    by (simp add: after_proxy_eq auction_row_def example_defs)
  have act: "status ?a' = Active"
    by (simp add: example_defs)
  from C7_price_monotone [OF pk row inv ok row' [unfolded after_proxy_def] act,
      folded after_proxy_def] pk row inv ok row'
  show ?thesis
    by (simp add: example_defs)
qed

text \<open>
  The claim as stated has the amounts of the winning bids non-decreasing. After bidder 3
  the winning bid holds 50.00 at the displayed price 12.00; the bid of bidder 4 is accepted
  with the amount 13.00 and becomes the winning bid: the winning amount went from 50.00 to
  13.00 while the auction is active. The claim also has the displayed price never
  decreasing: at the displayed price 100.00, a bid of 150.00 that names the maximum 50.00
  is accepted and the displayed price becomes 51.00.
\<close>

theorem C7_winning_amount_counterexample:
  "map amount (winning_bids after_high 1) = [5000]
   \<and> fst (place_bid (clock_at 3000) (bid_req 4 1300 (Some 20000)) after_high) =
       Placed \<lparr>ev_bidder = 4, ev_amount = 1300, ev_currentPrice = 5100, ev_isWinning = True,
               ev_bidCount = 3, ev_timeRemaining = 9996997\<rparr>
   \<and> map amount (winning_bids after_proxy 1) = [1300]
   \<and> map_option status (auction_row after_proxy 1) = Some Active
   \<and> map_option current_price (auction_row after_hundred 1) = Some 10000
   \<and> fst (place_bid (clock_at 2000) (bid_req 3 15000 (Some 5000)) after_hundred) =
       Placed \<lparr>ev_bidder = 3, ev_amount = 15000, ev_currentPrice = 5100, ev_isWinning = False,
               ev_bidCount = 2, ev_timeRemaining = 9997997\<rparr>
   \<and> map_option current_price (auction_row after_low_ceiling 1) = Some 5100
   \<and> map_option status (auction_row after_low_ceiling 1) = Some Active"
  by (simp add: after_proxy_eq after_low_ceiling_eq,
      simp add: after_high_eq after_hundred_eq example_defs handler_defs threshold_simps auction_row_def)

section \<open>Winning rows after a buy-now purchase\<close>

text \<open>
  Claim C4. On the buy-now listing, bidder 2 holds the winning bid; bidder 3 then buys the
  item. The buy-now branch inserts its winning row without clearing the standing one: the
  auction has two rows marked winning.
\<close>

theorem C4_two_winning_rows:
  "map bidder_id (winning_bids buy_now_opened 1) = [2]
   \<and> fst (place_bid (clock_at 2000) (bid_req 3 5000 None) buy_now_opened) = BoughtNow 3 5000
   \<and> map bidder_id (winning_bids buy_now_bought 1) = [2, 3]
   \<and> length (winning_bids buy_now_bought 1) = 2"
  by (simp add: buy_now_bought_eq, simp add: buy_now_opened_eq example_defs handler_defs threshold_simps)

section \<open>The event of an absorbed bid\<close>

text \<open>
  Claim C9. The bid of 50.00 of bidder 3, two minutes before the end, is absorbed by the
  standing ceiling. The stored bid count stays 1 while the event carries 2, and the end
  time is extended to 10180002 while the event carries the time remaining to the end time
  read before the extension (119997 ms, not the 299999 ms to the new end).
\<close>

theorem C9_absorbed_bid_event:
  "fst (place_bid (clock_at 9880000) (bid_req 3 5000 None) after_standing) =
     Placed \<lparr>ev_bidder = 3, ev_amount = 5000, ev_currentPrice = 5100, ev_isWinning = False,
             ev_bidCount = 2, ev_timeRemaining = 119997\<rparr>
   \<and> map_option bid_count (auction_row after_standing 1) = Some 1
   \<and> map_option bid_count (auction_row after_absorbed 1) = Some 1
   \<and> length (bids after_absorbed) = length (bids after_standing) + 1
   \<and> map_option end_time (auction_row after_absorbed 1) = Some 10180002
   \<and> 10180002 - js_now_emit (clock_at 9880000) = 299999"
  by (simp add: after_absorbed_eq, simp add: after_standing_eq example_defs handler_defs
      threshold_simps auction_row_def)

section \<open>Closing by the scheduler\<close>

text \<open>
  Claim C3. The listing with a reserve of 200.00 is active, has passed its end time, and
  holds one bid of 250.00. The query of the sweep is refused (it names a column of
  \<^verbatim>\<open>bids\<close> that the schema does not declare), the sweep logs the error and ends nothing:
  the tables are as before, the auction is still active and has no winner, where the claim
  has it sold to the bidder. With one bid of 150.00 the auction stays active too, where the
  claim has it ended without a sale.
\<close>

theorem C3_sweep_closes_nothing:
  "map_option status (auction_row reserve_met_db 1) = Some Active
   \<and> map_option end_time (auction_row reserve_met_db 1) = Some 10000000
   \<and> map_option reserve_price (auction_row reserve_met_db 1) = Some (Some 20000)
   \<and> map amount (bids_of reserve_met_db 1) = [25000]
   \<and> sweep_query 10000000 reserve_met_db = None
   \<and> processEndingAuctions 10000000 reserve_met_db = reserve_met_db
   \<and> map_option status (auction_row (processEndingAuctions 10000000 reserve_met_db) 1) =
       Some Active
   \<and> map_option winner_id (auction_row (processEndingAuctions 10000000 reserve_met_db) 1) =
       Some None
   \<and> map amount (bids_of reserve_missed_db 1) = [15000]
   \<and> sweep_query 10000000 reserve_missed_db = None
   \<and> map_option status (auction_row (processEndingAuctions 10000000 reserve_missed_db) 1) =
       Some Active"
  by (simp add: processEndingAuctions_unchanged sweep_query_fails,
      simp add: reserve_met_db_eq reserve_missed_db_eq auction_row_def bids_of_def example_defs)

section \<open>The winner the scheduler recomputes\<close>

text \<open>
  Claim C8. Bidder 2 stands with a ceiling of 100.00; the bid of 50.00 of bidder 3 is
  absorbed: bidder 2 holds the row marked winning and the displayed price is 51.00. The
  ordering of the scheduler's subqueries (by amount, from the bid rows alone) puts the bid
  of bidder 3 first, at 50.00: another bidder and another price. And the sweep itself,
  after the end time, names no bidder at all: its query is refused, and the auction is left
  as it was, active and with no winner.
\<close>

theorem C8_recomputation_differs:
  "map bidder_id (winning_bids after_absorbed 1) = [2]
   \<and> map_option current_price (auction_row after_absorbed 1) = Some 5100
   \<and> map_option bidder_id (highest_bid 1 after_absorbed) = Some 3
   \<and> map_option amount (highest_bid 1 after_absorbed) = Some 5000
   \<and> map_option end_time (auction_row after_absorbed 1) = Some 10180002
   \<and> sweep_query 10180002 after_absorbed = None
   \<and> processEndingAuctions 10180002 after_absorbed = after_absorbed
   \<and> map_option status (auction_row (processEndingAuctions 10180002 after_absorbed) 1) =
       Some Active
   \<and> map_option winner_id (auction_row (processEndingAuctions 10180002 after_absorbed) 1) =
       Some None"
  by (simp add: processEndingAuctions_unchanged sweep_query_fails,
      simp add: after_absorbed_eq auction_row_def winning_bids_def highest_bid_def bids_of_def
      example_defs)

end
